theory Spec2Isabelle
  imports Main
begin

section \<open>Data model\<close>

text \<open>
  The tables of the relational store, as the schema declares them. Timestamps are
  natural numbers of milliseconds on one UTC time line, shared by the server's
  \<^verbatim>\<open>Date.now()\<close> and the store's \<^verbatim>\<open>NOW()\<close>. Identifiers are the values of
  \<^verbatim>\<open>SERIAL\<close> columns. A nullable column is an \<open>option\<close>.
\<close>

record user_row =
  u_id :: nat
  u_email :: string
  u_password_hash :: string
  u_name :: "string option"
  u_avatar_url :: "string option"
  u_created_at :: nat
  u_updated_at :: nat
  u_last_login :: "nat option"

record session_row =
  s_id :: nat
  s_user_id :: "nat option"
  s_token_jti :: string
  s_expires_at :: nat
  s_created_at :: nat

record item_row =
  i_id :: nat
  i_name :: string
  i_description :: "string option"
  i_user_id :: "nat option"
  i_metadata :: "string option"
  i_created_at :: nat
  i_updated_at :: nat

record upload_row =
  up_id :: nat
  up_user_id :: "nat option"
  up_item_id :: "nat option"
  up_filename :: string
  up_file_url :: string
  up_file_size :: "nat option"
  up_content_type :: "string option"
  up_created_at :: nat

text \<open>
  The store: one list of rows per table, in insertion order, and the sequence that
  feeds \<^verbatim>\<open>sessions.id\<close>.
\<close>

record db =
  users :: "user_row list"
  sessions :: "session_row list"
  items :: "item_row list"
  uploads :: "upload_row list"
  sessions_seq :: nat

text \<open>
  What a statement can throw: the store refusing a row that breaks a constraint of the
  schema, or the runtime failing on a value that is not there. A store that cannot be
  reached is not modelled: every query is answered.
\<close>

datatype exn =
  UniqueViolation | ForeignKeyViolation | CheckViolation | NotNullViolation | ValueTooLong | TypeError

section \<open>Tokens\<close>

text \<open>
  The claims that \<^verbatim>\<open>generateToken\<close> embeds, with the \<^verbatim>\<open>iat\<close> and \<^verbatim>\<open>exp\<close>
  that \<^verbatim>\<open>jwt.sign\<close> adds (both in seconds).
\<close>

record payload =
  p_id :: nat
  p_email :: string
  p_jti :: string
  p_iat :: nat
  p_exp :: nat

text \<open>
  The signing library is an external collaborator. A token is modelled symbolically:
  either a payload together with the key it was signed with, or text that has no token
  structure. Verification under a key accepts exactly the tokens signed with that key.
\<close>

datatype jwt = Jwt (signed_with: string) (claims: payload) | Malformed string

datatype auth_header = NoHeader | NotBearer string | Bearer jwt

text \<open>
  \<^verbatim>\<open>process.env.JWT_SECRET\<close>, or this default. No property below depends on its value.
\<close>

definition JWT_SECRET :: string where
  "JWT_SECRET = ''your-secret-key-change-in-production''"

text \<open>\<^verbatim>\<open>JWT_EXPIRES_IN = '7d'\<close>, in seconds.\<close>

definition JWT_EXPIRES_IN :: nat where
  "JWT_EXPIRES_IN = 7 * 24 * 60 * 60"

text \<open>Decimal rendering of a number inside a template literal.\<close>

definition digit_char :: "nat \<Rightarrow> char" where
  "digit_char d = char_of (48 + d)"

fun dec :: "nat \<Rightarrow> string" where
  "dec n = (if n < 10 then [digit_char n] else dec (n div 10) @ [digit_char (n mod 10)])"

declare dec.simps [simp del]

text \<open>Reading a decimal rendering back; used to show that \<open>dec\<close> is injective.\<close>

definition digit_val :: "char \<Rightarrow> nat" where
  "digit_val c = of_char c - 48"

definition undec :: "string \<Rightarrow> nat" where
  "undec s = foldl (\<lambda>a c. 10 * a + digit_val c) 0 s"

text \<open>
  \<^verbatim>\<open>generateToken(user)\<close>, reading the clock \<open>now\<close> (milliseconds): the jti is
  \<^verbatim>\<open>`${user.id}-${Date.now()}`\<close>.
\<close>

definition generateToken :: "nat \<Rightarrow> nat \<Rightarrow> string \<Rightarrow> jwt" where
  "generateToken now uid email =
     Jwt JWT_SECRET
       \<lparr>p_id = uid, p_email = email, p_jti = dec uid @ ''-'' @ dec now,
        p_iat = now div 1000, p_exp = now div 1000 + JWT_EXPIRES_IN\<rparr>"

text \<open>\<^verbatim>\<open>verifyToken(token)\<close>: the decoded payload, or null when verification throws.\<close>

definition verifyToken :: "nat \<Rightarrow> jwt \<Rightarrow> payload option" where
  "verifyToken now token =
     (case token of
        Jwt k p \<Rightarrow> if k = JWT_SECRET \<and> now div 1000 < p_exp p then Some p else None
      | Malformed _ \<Rightarrow> None)"

text \<open>
  \<^verbatim>\<open>JSON.parse(Buffer.from(token.split('.')[1], 'base64').toString())\<close>: the payload of
  a token, read without verification. The routes apply it to tokens they have just
  generated.
\<close>

fun tokenData :: "jwt \<Rightarrow> exn + payload" where
  "tokenData (Jwt k p) = Inr p"
| "tokenData (Malformed s) = Inl TypeError"

section \<open>Session authority\<close>

text \<open>
  The row that \<^verbatim>\<open>authenticate\<close> attaches as \<^verbatim>\<open>req.user\<close>:
  \<^verbatim>\<open>SELECT id, email, name, avatar_url, created_at FROM users\<close>.
\<close>

record public_user =
  pu_id :: nat
  pu_email :: string
  pu_name :: "string option"
  pu_avatar_url :: "string option"
  pu_created_at :: nat

definition public_of :: "user_row \<Rightarrow> public_user" where
  "public_of u =
     \<lparr>pu_id = u_id u, pu_email = u_email u, pu_name = u_name u,
      pu_avatar_url = u_avatar_url u, pu_created_at = u_created_at u\<rparr>"

text \<open>A rejected request: the status and the \<^verbatim>\<open>code\<close> of the JSON envelope.\<close>

type_synonym http_error = "nat \<times> string"

text \<open>
  \<^verbatim>\<open>authenticate\<close>: \<open>Inl\<close> is the response sent when the middleware rejects;
  \<open>Inr\<close> is \<^verbatim>\<open>(req.user, req.token)\<close> when it calls \<^verbatim>\<open>next()\<close>.
\<close>

definition authenticate :: "db \<Rightarrow> nat \<Rightarrow> auth_header \<Rightarrow> http_error + public_user \<times> payload" where
  "authenticate d now authHeader =
     (case authHeader of
        NoHeader \<Rightarrow> Inl (401, ''NO_TOKEN'')
      | NotBearer _ \<Rightarrow> Inl (401, ''NO_TOKEN'')
      | Bearer token \<Rightarrow>
          (case verifyToken now token of
             None \<Rightarrow> Inl (401, ''INVALID_TOKEN'')
           | Some decoded \<Rightarrow>
               if filter (\<lambda>s. s_token_jti s = p_jti decoded \<and> s_expires_at s > now) (sessions d) = []
               then Inl (401, ''SESSION_EXPIRED'')
               else (case filter (\<lambda>u. u_id u = p_id decoded) (users d) of
                       [] \<Rightarrow> Inl (401, ''USER_NOT_FOUND'')
                     | u # _ \<Rightarrow> Inr (public_of u, decoded))))"

text \<open>
  \<^verbatim>\<open>optionalAuth\<close>: always calls \<^verbatim>\<open>next()\<close>; the result is the identity attached to
  the request, if any.
\<close>

definition optionalAuth :: "db \<Rightarrow> nat \<Rightarrow> auth_header \<Rightarrow> http_error + (public_user \<times> payload) option" where
  "optionalAuth d now authHeader =
     (case authHeader of
        Bearer token \<Rightarrow>
          (case verifyToken now token of
             Some decoded \<Rightarrow>
               (case filter (\<lambda>u. u_id u = p_id decoded) (users d) of
                  u # _ \<Rightarrow> Inr (Some (public_of u, decoded))
                | [] \<Rightarrow> Inr None)
           | None \<Rightarrow> Inr None)
      | _ \<Rightarrow> Inr None)"

text \<open>
  The specification's wording of the optional middleware, for comparison with
  \<open>optionalAuth\<close>: identical to \<^verbatim>\<open>authenticate\<close>, except that every failure is
  downgraded to no identity attached.
\<close>

definition OptionalValidate_spec ::
  "db \<Rightarrow> nat \<Rightarrow> auth_header \<Rightarrow> http_error + (public_user \<times> payload) option" where
  "OptionalValidate_spec d now authHeader =
     (case authenticate d now authHeader of
        Inl e \<Rightarrow> Inr None
      | Inr ident \<Rightarrow> Inr (Some ident))"

text \<open>
  \<^verbatim>\<open>createSession(userId, tokenJti, expiresInDays)\<close>. The insert is refused by the
  schema when the jti does not fit \<^verbatim>\<open>VARCHAR(255)\<close>, when it is already stored
  (\<^verbatim>\<open>UNIQUE\<close>), when the user does not exist (\<^verbatim>\<open>REFERENCES users(id)\<close>), or
  when \<^verbatim>\<open>expires_at > created_at\<close> fails. \<^verbatim>\<open>setDate(getDate() + n)\<close> moves the
  date by \<open>n\<close> days of 24 hours on the UTC time line. The value of \<^verbatim>\<open>sessions.id\<close>
  plays no part in any query of the program; the model draws it only for a row that is
  stored.
\<close>

definition createSession :: "db \<Rightarrow> nat \<Rightarrow> nat \<Rightarrow> string \<Rightarrow> nat \<Rightarrow> exn + db" where
  "createSession d now userId tokenJti expiresInDays =
     (let expiresAt = now + expiresInDays * 24 * 60 * 60 * 1000 in
      if length tokenJti > 255 then Inl ValueTooLong
      else if tokenJti \<in> set (map s_token_jti (sessions d)) then Inl UniqueViolation
      else if userId \<notin> set (map u_id (users d)) then Inl ForeignKeyViolation
      else if \<not> expiresAt > now then Inl CheckViolation
      else Inr (d\<lparr>sessions := sessions d @
                     [\<lparr>s_id = sessions_seq d + 1, s_user_id = Some userId, s_token_jti = tokenJti,
                       s_expires_at = expiresAt, s_created_at = now\<rparr>],
                   sessions_seq := sessions_seq d + 1\<rparr>))"

text \<open>\<^verbatim>\<open>revokeSession(tokenJti)\<close>: \<^verbatim>\<open>DELETE FROM sessions WHERE token_jti = $1\<close>.\<close>

definition revokeSession :: "db \<Rightarrow> string \<Rightarrow> db" where
  "revokeSession d tokenJti = d\<lparr>sessions := filter (\<lambda>s. \<not> s_token_jti s = tokenJti) (sessions d)\<rparr>"

text \<open>
  \<^verbatim>\<open>cleanupExpiredSessions()\<close>: \<^verbatim>\<open>DELETE FROM sessions WHERE expires_at < NOW()\<close>.
\<close>

definition cleanupExpiredSessions :: "db \<Rightarrow> nat \<Rightarrow> db" where
  "cleanupExpiredSessions d now = d\<lparr>sessions := filter (\<lambda>s. \<not> s_expires_at s < now) (sessions d)\<rparr>"

text \<open>
  The statements that signup, login and refresh share once they hold the user:
  \<^verbatim>\<open>generateToken(user)\<close>, decoding the jti from the new token, and
  \<^verbatim>\<open>createSession(user.id, tokenData.jti)\<close>. The clock is read at \<open>tg\<close> by
  \<^verbatim>\<open>generateToken\<close> and at \<open>ts\<close> by \<^verbatim>\<open>createSession\<close>.
\<close>

definition issue :: "db \<Rightarrow> nat \<Rightarrow> nat \<Rightarrow> nat \<Rightarrow> string \<Rightarrow> exn + jwt \<times> db" where
  "issue d tg ts uid email =
     (let token = generateToken tg uid email in
      case tokenData token of
        Inl e \<Rightarrow> Inl e
      | Inr td \<Rightarrow>
          (case createSession d ts uid (p_jti td) 7 of
             Inl e \<Rightarrow> Inl e
           | Inr d' \<Rightarrow> Inr (token, d')))"

section \<open>Routes\<close>

text \<open>
  A route takes the store, the clock readings and the request, and returns the response
  with the store it leaves: \<open>Inl\<close> is an error envelope (status and code), \<open>Inr\<close> the
  payload of a success. A route behind \<^verbatim>\<open>authenticate\<close> runs the middleware first.
\<close>

text \<open>\<^verbatim>\<open>POST /api/auth/logout\<close>\<close>

definition logout :: "db \<Rightarrow> nat \<Rightarrow> auth_header \<Rightarrow> (http_error + unit) \<times> db" where
  "logout d ta h =
     (case authenticate d ta h of
        Inl e \<Rightarrow> (Inl e, d)
      | Inr (user, token) \<Rightarrow> (Inr (), revokeSession d (p_jti token)))"

text \<open>\<^verbatim>\<open>POST /api/auth/refresh\<close>\<close>

definition refresh :: "db \<Rightarrow> nat \<Rightarrow> nat \<Rightarrow> nat \<Rightarrow> auth_header \<Rightarrow> (http_error + jwt) \<times> db" where
  "refresh d ta tg ts h =
     (case authenticate d ta h of
        Inl e \<Rightarrow> (Inl e, d)
      | Inr (user, token) \<Rightarrow>
          (let d1 = revokeSession d (p_jti token) in
           case issue d1 tg ts (pu_id user) (pu_email user) of
             Inl _ \<Rightarrow> (Inl (500, ''REFRESH_ERROR''), d1)
           | Inr (newToken, d2) \<Rightarrow> (Inr newToken, d2)))"

subsection \<open>Items\<close>

text \<open>The columns of the unauthenticated listing: \<^verbatim>\<open>id, name, description, created_at\<close>.\<close>

record item_summary =
  is_id :: nat
  is_name :: string
  is_description :: "string option"
  is_created_at :: nat

definition summary_of :: "item_row \<Rightarrow> item_summary" where
  "summary_of i =
     \<lparr>is_id = i_id i, is_name = i_name i, is_description = i_description i,
      is_created_at = i_created_at i\<rparr>"

datatype listing = Rows "item_row list" | Summaries "item_summary list"

text \<open>
  \<^verbatim>\<open>ORDER BY created_at DESC\<close>. SQL leaves the order of rows with equal keys open; the
  model fixes one.
\<close>

definition order_by_created_at_desc :: "item_row list \<Rightarrow> item_row list" where
  "order_by_created_at_desc rows = rev (sort_key i_created_at rows)"

text \<open>Truthiness of a nullable numeric column in a JavaScript condition.\<close>

definition truthy :: "nat option \<Rightarrow> bool" where
  "truthy v = (case v of None \<Rightarrow> False | Some n \<Rightarrow> n \<noteq> 0)"

text \<open>\<^verbatim>\<open>GET /api/items\<close>\<close>

definition get_items :: "db \<Rightarrow> nat \<Rightarrow> auth_header \<Rightarrow> http_error + listing" where
  "get_items d now h =
     (case optionalAuth d now h of
        Inl e \<Rightarrow> Inl e
      | Inr (Some (user, token)) \<Rightarrow>
          Inr (Rows (order_by_created_at_desc
                       (filter (\<lambda>i. i_user_id i = Some (pu_id user)) (items d))))
      | Inr None \<Rightarrow>
          Inr (Summaries (take 10 (map summary_of (order_by_created_at_desc (items d))))))"

text \<open>\<^verbatim>\<open>GET /api/items/:id\<close>\<close>

definition get_item :: "db \<Rightarrow> nat \<Rightarrow> auth_header \<Rightarrow> nat \<Rightarrow> http_error + item_row" where
  "get_item d now h iid =
     (case optionalAuth d now h of
        Inl e \<Rightarrow> Inl e
      | Inr ident \<Rightarrow>
          (case filter (\<lambda>i. i_id i = iid) (items d) of
             [] \<Rightarrow> Inl (404, ''NOT_FOUND'')
           | item # _ \<Rightarrow>
               if truthy (i_user_id item) \<and>
                  (case ident of
                     None \<Rightarrow> True
                   | Some (user, token) \<Rightarrow> i_user_id item \<noteq> Some (pu_id user))
               then Inl (403, ''FORBIDDEN'')
               else Inr item))"

text \<open>A field of a JSON request body: absent, \<^verbatim>\<open>null\<close>, or a value.\<close>

datatype 'a field = Undefined | Null | Val 'a

text \<open>
  The single \<^verbatim>\<open>UPDATE items SET ... , updated_at = NOW() WHERE id = $n\<close> that the handler
  assembles from the fields that are not \<^verbatim>\<open>undefined\<close>. \<^verbatim>\<open>name\<close> is
  \<^verbatim>\<open>VARCHAR(255) NOT NULL\<close>.
\<close>

definition update_item_row ::
  "nat \<Rightarrow> string field \<Rightarrow> string field \<Rightarrow> string field \<Rightarrow> item_row \<Rightarrow> exn + item_row" where
  "update_item_row now name description metadata i =
     (case name of
        Null \<Rightarrow> Inl NotNullViolation
      | _ \<Rightarrow>
        (case (case name of Val s \<Rightarrow> length s > 255 | _ \<Rightarrow> False) of
           True \<Rightarrow> Inl ValueTooLong
         | False \<Rightarrow>
             Inr (i\<lparr>i_name := (case name of Val s \<Rightarrow> s | _ \<Rightarrow> i_name i),
                    i_description :=
                      (case description of
                         Undefined \<Rightarrow> i_description i | Null \<Rightarrow> None | Val s \<Rightarrow> Some s),
                    i_metadata :=
                      (case metadata of
                         Undefined \<Rightarrow> i_metadata i | Null \<Rightarrow> None | Val s \<Rightarrow> Some s),
                    i_updated_at := now\<rparr>)))"

text \<open>\<^verbatim>\<open>PUT /api/items/:id\<close>\<close>

definition put_item ::
  "db \<Rightarrow> nat \<Rightarrow> auth_header \<Rightarrow> nat \<Rightarrow> string field \<Rightarrow> string field \<Rightarrow> string field
     \<Rightarrow> (http_error + item_row) \<times> db" where
  "put_item d now h iid name description metadata =
     (case authenticate d now h of
        Inl e \<Rightarrow> (Inl e, d)
      | Inr (user, token) \<Rightarrow>
          (case filter (\<lambda>i. i_id i = iid) (items d) of
             [] \<Rightarrow> (Inl (404, ''NOT_FOUND''), d)
           | row # _ \<Rightarrow>
               if i_user_id row \<noteq> Some (pu_id user) then (Inl (403, ''FORBIDDEN''), d)
               else if name = Undefined \<and> description = Undefined \<and> metadata = Undefined
               then (Inl (400, ''NO_UPDATES''), d)
               else (case update_item_row now name description metadata row of
                       Inl _ \<Rightarrow> (Inl (500, ''UPDATE_ERROR''), d)
                     | Inr row' \<Rightarrow>
                         (Inr row',
                          d\<lparr>items := map (\<lambda>i. if i_id i = iid then row' else i) (items d)\<rparr>))))"

text \<open>
  \<^verbatim>\<open>DELETE /api/items/:id\<close>. The blobs of the item's uploads are deleted from the object
  store first, each failure swallowed; the object store is not part of the modelled
  state. Deleting the item cascades to its uploads.
\<close>

definition delete_item :: "db \<Rightarrow> nat \<Rightarrow> auth_header \<Rightarrow> nat \<Rightarrow> (http_error + unit) \<times> db" where
  "delete_item d now h iid =
     (case authenticate d now h of
        Inl e \<Rightarrow> (Inl e, d)
      | Inr (user, token) \<Rightarrow>
          (case filter (\<lambda>i. i_id i = iid) (items d) of
             [] \<Rightarrow> (Inl (404, ''NOT_FOUND''), d)
           | row # _ \<Rightarrow>
               if i_user_id row \<noteq> Some (pu_id user) then (Inl (403, ''FORBIDDEN''), d)
               else (Inr (),
                     d\<lparr>items := filter (\<lambda>i. \<not> i_id i = iid) (items d),
                       uploads := filter (\<lambda>u. \<not> up_item_id u = Some iid) (uploads d)\<rparr>)))"

subsection \<open>Users\<close>

text \<open>
  The value of a body field that passes the \<^verbatim>\<open>!x\<close> test: an absent field,
  \<^verbatim>\<open>null\<close> and the empty string do not.
\<close>

fun present :: "string field \<Rightarrow> string option" where
  "present (Val s) = (if s = [] then None else Some s)"
| "present Undefined = None"
| "present Null = None"

text \<open>
  \<^verbatim>\<open>PUT /api/users/me/password\<close>. The hashing library is an external collaborator:
  \<open>compare\<close> stands for \<^verbatim>\<open>bcrypt.compare\<close> and \<open>hash\<close> for
  \<^verbatim>\<open>bcrypt.hash(_, 10)\<close> with the salt it draws in this call. Reading
  \<^verbatim>\<open>result.rows[0].password_hash\<close> with no row throws.
\<close>

definition change_password ::
  "(string \<Rightarrow> string \<Rightarrow> bool) \<Rightarrow> (string \<Rightarrow> string) \<Rightarrow> db \<Rightarrow> nat \<Rightarrow> auth_header
     \<Rightarrow> string field \<Rightarrow> string field \<Rightarrow> (http_error + unit) \<times> db" where
  "change_password compare hash d now h current_password new_password =
     (case authenticate d now h of
        Inl e \<Rightarrow> (Inl e, d)
      | Inr (user, token) \<Rightarrow>
          (case (present current_password, present new_password) of
             (Some cur, Some new) \<Rightarrow>
               if length new < 8 then (Inl (400, ''WEAK_PASSWORD''), d)
               else (case filter (\<lambda>u. u_id u = pu_id user) (users d) of
                       [] \<Rightarrow> (Inl (500, ''PASSWORD_ERROR''), d)
                     | row # _ \<Rightarrow>
                         if \<not> compare cur (u_password_hash row)
                         then (Inl (401, ''INVALID_PASSWORD''), d)
                         else (Inr (),
                               d\<lparr>users :=
                                    map (\<lambda>u. if u_id u = pu_id user
                                              then u\<lparr>u_password_hash := hash new, u_updated_at := now\<rparr>
                                              else u)
                                      (users d)\<rparr>))
           | _ \<Rightarrow> (Inl (400, ''MISSING_FIELDS''), d)))"

text \<open>
  \<^verbatim>\<open>DELETE FROM users WHERE id = $1\<close>, with the cascades of the schema: the user's items
  (and the uploads of those items), sessions and uploads go with the row.
\<close>

definition delete_user :: "db \<Rightarrow> nat \<Rightarrow> db" where
  "delete_user d uid =
     (let gone = map i_id (filter (\<lambda>i. i_user_id i = Some uid) (items d)) in
      d\<lparr>users := filter (\<lambda>u. \<not> u_id u = uid) (users d),
        sessions := filter (\<lambda>s. \<not> s_user_id s = Some uid) (sessions d),
        items := filter (\<lambda>i. \<not> i_user_id i = Some uid) (items d),
        uploads :=
          filter (\<lambda>u. \<not> up_user_id u = Some uid \<and>
                       \<not> (case up_item_id u of None \<Rightarrow> False | Some i \<Rightarrow> i \<in> set gone))
            (uploads d)\<rparr>)"

text \<open>\<^verbatim>\<open>DELETE /api/users/me\<close>\<close>

definition delete_account ::
  "(string \<Rightarrow> string \<Rightarrow> bool) \<Rightarrow> db \<Rightarrow> nat \<Rightarrow> auth_header \<Rightarrow> string field
     \<Rightarrow> (http_error + unit) \<times> db" where
  "delete_account compare d now h password =
     (case authenticate d now h of
        Inl e \<Rightarrow> (Inl e, d)
      | Inr (user, token) \<Rightarrow>
          (case present password of
             None \<Rightarrow> (Inl (400, ''MISSING_PASSWORD''), d)
           | Some pw \<Rightarrow>
               (case filter (\<lambda>u. u_id u = pu_id user) (users d) of
                  [] \<Rightarrow> (Inl (500, ''DELETE_ERROR''), d)
                | row # _ \<Rightarrow>
                    if \<not> compare pw (u_password_hash row)
                    then (Inl (401, ''INVALID_PASSWORD''), d)
                    else (Inr (), delete_user d (pu_id user)))))"

section \<open>Example states\<close>

text \<open>
  A store with two users, Alice (id 1) and Bob (id 2), one item of Bob's, one item
  without an owner, and no session. Passwords are compared by \<open>ex_compare\<close>, which
  accepts a password against the hash that \<open>ex_hash\<close> makes of it.
\<close>

definition ex_hash :: "string \<Rightarrow> string" where
  "ex_hash pw = ''$2b$10$'' @ pw"

definition ex_compare :: "string \<Rightarrow> string \<Rightarrow> bool" where
  "ex_compare pw h = (h = ex_hash pw)"

definition alice :: user_row where
  "alice =
     \<lparr>u_id = 1, u_email = ''a@b.com'', u_password_hash = ex_hash ''Test123!'',
      u_name = Some ''A'', u_avatar_url = None, u_created_at = 10, u_updated_at = 10,
      u_last_login = None\<rparr>"

definition bob :: user_row where
  "bob =
     \<lparr>u_id = 2, u_email = ''b@b.com'', u_password_hash = ex_hash ''Secret456?'',
      u_name = Some ''B'', u_avatar_url = None, u_created_at = 20, u_updated_at = 20,
      u_last_login = None\<rparr>"

definition bobs_item :: item_row where
  "bobs_item =
     \<lparr>i_id = 1, i_name = ''X'', i_description = Some ''private'', i_user_id = Some 2,
      i_metadata = Some ''{}'', i_created_at = 30, i_updated_at = 30\<rparr>"

definition legacy_item :: item_row where
  "legacy_item =
     \<lparr>i_id = 2, i_name = ''Sample Item 1'', i_description = None, i_user_id = None,
      i_metadata = Some ''{}'', i_created_at = 5, i_updated_at = 5\<rparr>"

definition ex_db :: db where
  "ex_db =
     \<lparr>users = [alice, bob], sessions = [], items = [bobs_item, legacy_item], uploads = [],
      sessions_seq = 0\<rparr>"

text \<open>
  Alice logs in at millisecond 1000 and Bob at 1500: their tokens, the payloads of the
  tokens, the session rows, and the store that holds both sessions.
\<close>

definition alice_payload :: payload where
  "alice_payload =
     \<lparr>p_id = 1, p_email = ''a@b.com'', p_jti = ''1-1000'', p_iat = 1, p_exp = 604801\<rparr>"

definition alice_token :: jwt where
  "alice_token = Jwt JWT_SECRET alice_payload"

definition bob_payload :: payload where
  "bob_payload =
     \<lparr>p_id = 2, p_email = ''b@b.com'', p_jti = ''2-1500'', p_iat = 1, p_exp = 604801\<rparr>"

definition bob_token :: jwt where
  "bob_token = Jwt JWT_SECRET bob_payload"

definition alice_session :: session_row where
  "alice_session =
     \<lparr>s_id = 1, s_user_id = Some 1, s_token_jti = ''1-1000'', s_expires_at = 604801000,
      s_created_at = 1000\<rparr>"

definition bob_session :: session_row where
  "bob_session =
     \<lparr>s_id = 2, s_user_id = Some 2, s_token_jti = ''2-1500'', s_expires_at = 604801500,
      s_created_at = 1500\<rparr>"

definition ex_db1 :: db where
  "ex_db1 = ex_db\<lparr>sessions := [alice_session, bob_session], sessions_seq := 2\<rparr>"

text \<open>
  Alice refreshes at millisecond 2000: the replacement token, its session row, and the
  store after the refresh.
\<close>

definition alice_payload2 :: payload where
  "alice_payload2 =
     \<lparr>p_id = 1, p_email = ''a@b.com'', p_jti = ''1-2000'', p_iat = 2, p_exp = 604802\<rparr>"

definition alice_token2 :: jwt where
  "alice_token2 = Jwt JWT_SECRET alice_payload2"

definition alice_session2 :: session_row where
  "alice_session2 =
     \<lparr>s_id = 3, s_user_id = Some 1, s_token_jti = ''1-2000'', s_expires_at = 604802000,
      s_created_at = 2000\<rparr>"

definition ex_db2 :: db where
  "ex_db2 = ex_db\<lparr>sessions := [bob_session, alice_session2], sessions_seq := 3\<rparr>"

section \<open>Auxiliary facts\<close>

subsection \<open>Evaluating the decimal rendering\<close>

lemma digit_char_simps:
  "digit_char 0 = CHR ''0''" "digit_char (Suc 0) = CHR ''1''" "digit_char 2 = CHR ''2''"
  "digit_char 3 = CHR ''3''" "digit_char 4 = CHR ''4''" "digit_char 5 = CHR ''5''"
  "digit_char 6 = CHR ''6''" "digit_char 7 = CHR ''7''" "digit_char 8 = CHR ''8''"
  "digit_char 9 = CHR ''9''"
  by code_simp+

lemma dec_small: "n < 10 \<Longrightarrow> dec n = [digit_char n]"
  by (simp add: dec.simps [of n])

lemma dec_large: "10 \<le> n \<Longrightarrow> dec n = dec (n div 10) @ [digit_char (n mod 10)]"
  by (simp add: dec.simps [of n])

lemmas dec_eval = dec_small dec_large digit_char_simps

lemmas ex_defs = ex_db_def ex_db1_def alice_def bob_def bobs_item_def legacy_item_def
  alice_payload_def alice_token_def bob_payload_def bob_token_def alice_session_def bob_session_def

lemmas ex_defs2 = ex_defs alice_payload2_def alice_token2_def alice_session2_def ex_db2_def

subsection \<open>The jti determines the user and the millisecond\<close>

lemma digit_char_not_dash: "d < 10 \<Longrightarrow> digit_char d \<noteq> CHR ''-''"
proof
  assume d: "d < 10" and e: "digit_char d = CHR ''-''"
  from e have "(of_char (digit_char d) :: nat) = of_char (CHR ''-'')" by simp
  with d show False by (simp add: digit_char_def)
qed

lemma dash_notin_dec: "CHR ''-'' \<notin> set (dec n)"
proof (induction n rule: dec.induct)
  case (1 n)
  show ?case
  proof (cases "n < 10")
    case True
    then show ?thesis using digit_char_not_dash [of n] by (simp add: dec_small)
  next
    case False
    then show ?thesis using 1 digit_char_not_dash [of "n mod 10"]
      by (simp add: dec_large)
  qed
qed

lemma digit_val_digit_char: "d < 10 \<Longrightarrow> digit_val (digit_char d) = d"
  by (simp add: digit_val_def digit_char_def)

lemma undec_dec: "undec (dec n) = n"
proof (induction n rule: dec.induct)
  case (1 n)
  show ?case
  proof (cases "n < 10")
    case True
    then show ?thesis by (simp add: dec_small undec_def digit_val_digit_char)
  next
    case False
    then have "undec (dec (n div 10)) = n div 10" using 1 by simp
    then show ?thesis using False
      by (simp add: dec_large undec_def digit_val_digit_char)
  qed
qed

lemma dec_inj: "dec a = dec b \<Longrightarrow> a = b"
  by (metis undec_dec)

lemma jti_inj:
  "(dec u @ ''-'' @ dec t = dec u' @ ''-'' @ dec t') = (u = u' \<and> t = t')"
  using append_Cons_eq_iff [of "CHR ''-''" "dec u" "dec t" "dec u'" "dec t'"]
    dash_notin_dec dec_inj by auto

subsection \<open>Queries and the middleware\<close>

lemma filter_hd_sat: "filter P xs = y # ys \<Longrightarrow> P y \<and> y \<in> set xs"
  by (metis filter_eq_Cons_iff in_set_conv_decomp)

lemma filter_nonempty: "x \<in> set xs \<Longrightarrow> P x \<Longrightarrow> \<exists>y ys. filter P xs = y # ys"
  by (metis filter_empty_conv neq_Nil_conv)

lemma authenticate_InrD:
  assumes "authenticate d now h = Inr (user, decoded)"
  shows "\<exists>tok row rest. h = Bearer tok \<and> verifyToken now tok = Some decoded \<and>
           filter (\<lambda>s. s_token_jti s = p_jti decoded \<and> s_expires_at s > now) (sessions d) \<noteq> [] \<and>
           filter (\<lambda>u. u_id u = p_id decoded) (users d) = row # rest \<and>
           user = public_of row"
  using assms
  by (auto simp: authenticate_def split: auth_header.splits option.splits if_splits list.splits)

lemma authenticate_user_id:
  assumes "authenticate d now h = Inr (user, decoded)"
  shows "pu_id user = p_id decoded"
proof -
  from authenticate_InrD [OF assms] obtain row rest where
    f: "filter (\<lambda>u. u_id u = p_id decoded) (users d) = row # rest" and u: "user = public_of row"
    by blast
  from filter_hd_sat [OF f] have "u_id row = p_id decoded" by simp
  with u show ?thesis by (simp add: public_of_def)
qed

lemma authenticate_implies_optionalAuth:
  "authenticate d now h = Inr ident \<Longrightarrow> optionalAuth d now h = Inr (Some ident)"
  by (auto simp: authenticate_def optionalAuth_def
      split: auth_header.splits option.splits if_splits list.splits)

lemma optionalAuth_never_rejects: "\<exists>ident. optionalAuth d now h = Inr ident"
  by (simp add: optionalAuth_def split: auth_header.splits option.splits list.splits)

lemma optionalAuth_ignores_sessions:
  "optionalAuth (d\<lparr>sessions := ss\<rparr>) now h = optionalAuth d now h"
  by (simp add: optionalAuth_def split: auth_header.splits option.splits)

lemma optionalAuth_agrees_unless_session_expired:
  "authenticate d now h \<noteq> Inl (401, ''SESSION_EXPIRED'') \<Longrightarrow>
   optionalAuth d now h = OptionalValidate_spec d now h"
  by (auto simp: OptionalValidate_spec_def authenticate_def optionalAuth_def
      split: auth_header.splits option.splits list.splits if_splits)

lemma optionalAuth_anonymous:
  "optionalAuth d now NoHeader = Inr None"
  "optionalAuth d now (NotBearer s) = Inr None"
  "verifyToken now tok = None \<Longrightarrow> optionalAuth d now (Bearer tok) = Inr None"
  by (simp_all add: optionalAuth_def)

lemma issue_InrD:
  assumes "issue d tg ts uid email = Inr (tok, d')"
  shows "tok = generateToken tg uid email \<and>
         createSession d ts uid (dec uid @ ''-'' @ dec tg) 7 = Inr d'"
  using assms by (auto simp: issue_def generateToken_def split: sum.splits)

lemma createSession_InrD:
  assumes "createSession d ts uid jti days = Inr d'"
  shows "jti \<notin> set (map s_token_jti (sessions d)) \<and> uid \<in> set (map u_id (users d)) \<and>
         d' = d\<lparr>sessions := sessions d @
                   [\<lparr>s_id = sessions_seq d + 1, s_user_id = Some uid, s_token_jti = jti,
                     s_expires_at = ts + days * 24 * 60 * 60 * 1000, s_created_at = ts\<rparr>],
                 sessions_seq := sessions_seq d + 1\<rparr>"
  using assms by (auto simp: createSession_def Let_def split: if_splits)

lemma verifyToken_SomeD: "verifyToken t tok = Some p \<Longrightarrow> tok = Jwt JWT_SECRET p \<and> t div 1000 < p_exp p"
  by (auto simp: verifyToken_def split: jwt.splits if_splits)

lemma issue_accepted:
  assumes iss: "issue d tg ts uid email = Inr (tok, d')"
    and tok_live: "t div 1000 < tg div 1000 + JWT_EXPIRES_IN"
    and ses_live: "t < ts + 7 * 24 * 60 * 60 * 1000"
  shows "\<exists>user. authenticate d' t (Bearer tok) = Inr (user, claims tok) \<and> pu_id user = uid"
proof -
  let ?jti = "dec uid @ ''-'' @ dec tg"
  from issue_InrD [OF iss] have tok: "tok = generateToken tg uid email"
    and cs: "createSession d ts uid ?jti 7 = Inr d'" by simp_all
  from createSession_InrD [OF cs] have
    uid: "uid \<in> set (map u_id (users d))" and
    d': "d' = d\<lparr>sessions := sessions d @
                   [\<lparr>s_id = sessions_seq d + 1, s_user_id = Some uid, s_token_jti = ?jti,
                     s_expires_at = ts + 7 * 24 * 60 * 60 * 1000, s_created_at = ts\<rparr>],
                 sessions_seq := sessions_seq d + 1\<rparr>" by simp_all
  from uid obtain x where "x \<in> set (users d)" "u_id x = uid" by auto
  from filter_nonempty [of x "users d" "\<lambda>u. u_id u = uid", OF this]
  obtain row rest where f: "filter (\<lambda>u. u_id u = uid) (users d) = row # rest" by blast
  from filter_hd_sat [OF f] have row: "u_id row = uid" by simp
  have v: "verifyToken t tok = Some (claims tok)"
    using tok_live by (simp add: tok verifyToken_def generateToken_def)
  have j: "p_jti (claims tok) = ?jti" "p_id (claims tok) = uid"
    by (simp_all add: tok generateToken_def)
  have "authenticate d' t (Bearer tok) = Inr (public_of row, claims tok)"
    using ses_live f by (simp add: authenticate_def v j d')
  with row show ?thesis by (simp add: public_of_def)
qed

lemma refresh_InrD:
  assumes r: "refresh d ta tg ts h = (Inr new, d')"
  shows "\<exists>user token. authenticate d ta h = Inr (user, token) \<and>
           issue (revokeSession d (p_jti token)) tg ts (pu_id user) (pu_email user) = Inr (new, d')"
  using r by (auto simp: refresh_def Let_def split: sum.splits prod.splits)

lemma no_session_rejected:
  assumes "p_jti (claims tok) \<notin> set (map s_token_jti (sessions d))"
  shows "authenticate d t (Bearer tok) = Inl (401, ''SESSION_EXPIRED'') \<or>
         authenticate d t (Bearer tok) = Inl (401, ''INVALID_TOKEN'')"
proof (cases "verifyToken t tok")
  case None
  then show ?thesis by (simp add: authenticate_def)
next
  case (Some p)
  from verifyToken_SomeD [OF Some] have "claims tok = p" by simp
  with assms have "filter (\<lambda>s. s_token_jti s = p_jti p \<and> s_expires_at s > t) (sessions d) = []"
    by (force simp: filter_empty_conv)
  with Some show ?thesis by (simp add: authenticate_def)
qed

lemma revokeSession_gone: "j \<notin> set (map s_token_jti (sessions (revokeSession d j)))"
  by (auto simp: revokeSession_def)

lemma alice_fields:
  "pu_id (public_of alice) = 1" "pu_email (public_of alice) = ''a@b.com''"
  "p_jti alice_payload = ''1-1000''"
  by (simp_all add: public_of_def alice_def alice_payload_def)

lemma primary_key_lookup:
  "distinct (map f xs) \<Longrightarrow> x \<in> set xs \<Longrightarrow> filter (\<lambda>y. f y = f x) xs = [x]"
proof (induction xs)
  case Nil
  then show ?case by simp
next
  case (Cons a xs)
  show ?case
  proof (cases "a = x")
    case True
    with Cons.prems have "f x \<notin> f ` set xs" by simp
    then have "\<forall>y\<in>set xs. f y \<noteq> f x" by (metis imageI)
    then have "filter (\<lambda>y. f y = f x) xs = []" by (simp add: filter_empty_conv)
    with True show ?thesis by simp
  next
    case False
    with Cons.prems have x: "x \<in> set xs" by simp
    with Cons.prems have "f a \<noteq> f x" by (metis distinct.simps(2) imageI list.simps(9) set_map)
    with Cons x show ?thesis by simp
  qed
qed

lemma set_order_by_created_at_desc [simp]: "set (order_by_created_at_desc rows) = set rows"
  by (simp add: order_by_created_at_desc_def)

lemma length_order_by_created_at_desc [simp]: "length (order_by_created_at_desc rows) = length rows"
  by (simp add: order_by_created_at_desc_def)

lemma order_by_created_at_desc_sorted:
  "sorted_wrt (\<lambda>a b. i_created_at b \<le> i_created_at a) (order_by_created_at_desc rows)"
proof -
  have "sorted (map i_created_at (sort_key i_created_at rows))" by (rule sorted_sort_key)
  then have "sorted_wrt (\<lambda>a b. i_created_at a \<le> i_created_at b) (sort_key i_created_at rows)"
    by (simp add: sorted_wrt_map)
  then show ?thesis by (simp add: order_by_created_at_desc_def sorted_wrt_rev)
qed

lemma sorted_wrt_take_drop:
  assumes "sorted_wrt P xs" "a \<in> set (take n xs)" "b \<in> set (drop n xs)"
  shows "P a b"
proof -
  from assms(1) have "sorted_wrt P (take n xs @ drop n xs)" by simp
  with assms(2,3) show ?thesis unfolding sorted_wrt_append by blast
qed

subsection \<open>The example states\<close>

lemma verify_bob: "t div 1000 < 604801 \<Longrightarrow> verifyToken t bob_token = Some bob_payload"
  by (simp add: verifyToken_def bob_token_def bob_payload_def)

lemma verify_alice: "t div 1000 < 604801 \<Longrightarrow> verifyToken t alice_token = Some alice_payload"
  by (simp add: verifyToken_def alice_token_def alice_payload_def)

lemma ex_db1_reached:
  "issue ex_db 1000 1000 1 ''a@b.com''
     = Inr (alice_token, ex_db\<lparr>sessions := [alice_session], sessions_seq := 1\<rparr>)"
  "issue (ex_db\<lparr>sessions := [alice_session], sessions_seq := 1\<rparr>) 1500 1500 2 ''b@b.com''
     = Inr (bob_token, ex_db1)"
  by (simp_all add: issue_def generateToken_def createSession_def dec_eval JWT_EXPIRES_IN_def ex_defs)

lemma auth_alice:
  "authenticate ex_db1 2000 (Bearer alice_token) = Inr (public_of alice, alice_payload)"
  by (simp add: authenticate_def verify_alice) (simp add: ex_defs)

lemma alice_row:
  "distinct (map u_id (users ex_db1))" "alice \<in> set (users ex_db1)"
  "u_id alice = pu_id (public_of alice)"
  by (simp_all add: ex_defs public_of_def)

lemma ex_compare_alice:
  "ex_compare ''Test123!'' (u_password_hash alice)"
  "\<not> ex_compare ''wrong-pass'' (u_password_hash alice)"
  by (simp_all add: ex_compare_def ex_hash_def alice_def)

section \<open>Session authority: issue, validate, revoke\<close>

text \<open>
  Claim C1. Once \<^verbatim>\<open>revokeSession\<close> has run with the jti of a token, \<^verbatim>\<open>authenticate\<close>
  rejects that token with status 401 and code \<^verbatim>\<open>SESSION_EXPIRED\<close>, although the token
  still verifies (its signature is good and its own expiry has not passed).
\<close>

theorem revoke_then_authenticate:
  "verifyToken t tok = Some decoded \<Longrightarrow>
   authenticate (revokeSession d (p_jti decoded)) t (Bearer tok) = Inl (401, ''SESSION_EXPIRED'')"
  by (simp add: authenticate_def revokeSession_def filter_empty_conv)

theorem revoke_then_authenticate_witness:
  "verifyToken 2000 alice_token = Some alice_payload \<and>
   authenticate (revokeSession ex_db1 (p_jti alice_payload)) 2000 (Bearer alice_token)
     = Inl (401, ''SESSION_EXPIRED'')"
proof -
  have v: "verifyToken 2000 alice_token = Some alice_payload"
    by (simp add: verifyToken_def alice_token_def alice_payload_def)
  from v revoke_then_authenticate [OF v] show ?thesis by simp
qed

text \<open>
  Claim C2. When the issuing statements (\<^verbatim>\<open>generateToken\<close>, then \<^verbatim>\<open>createSession\<close>
  with the jti of the new token) succeed for a user, \<^verbatim>\<open>authenticate\<close> accepts the
  returned token and attaches a user whose id is the id the token was issued for. The
  token is presented at a time \<open>t\<close> at which neither the token nor the session row has
  expired, which holds at the time of issue.
\<close>

theorem issue_then_authenticate:
  assumes iss: "issue d tg ts uid email = Inr (tok, d')"
    and tok_live: "t div 1000 < tg div 1000 + JWT_EXPIRES_IN"
    and ses_live: "t < ts + 7 * 24 * 60 * 60 * 1000"
  shows "\<exists>user decoded. authenticate d' t (Bearer tok) = Inr (user, decoded) \<and>
           pu_id user = uid \<and> p_id decoded = uid"
proof -
  from issue_accepted [OF iss tok_live ses_live] obtain user where
    a: "authenticate d' t (Bearer tok) = Inr (user, claims tok)" and u: "pu_id user = uid"
    by blast
  from authenticate_user_id [OF a] u have "p_id (claims tok) = uid" by simp
  with a u show ?thesis by blast
qed

theorem issue_then_authenticate_witness:
  "issue ex_db 1000 1000 1 ''a@b.com''
     = Inr (alice_token, ex_db\<lparr>sessions := [alice_session], sessions_seq := 1\<rparr>) \<and>
   (\<exists>user decoded.
      authenticate (ex_db\<lparr>sessions := [alice_session], sessions_seq := 1\<rparr>) 1000 (Bearer alice_token)
        = Inr (user, decoded) \<and> pu_id user = 1 \<and> p_id decoded = 1)"
proof -
  have i: "issue ex_db 1000 1000 1 ''a@b.com''
     = Inr (alice_token, ex_db\<lparr>sessions := [alice_session], sessions_seq := 1\<rparr>)"
    by (simp add: issue_def generateToken_def createSession_def dec_eval JWT_EXPIRES_IN_def ex_defs)
  have a: "(1000::nat) div 1000 < 1000 div 1000 + JWT_EXPIRES_IN" by (simp add: JWT_EXPIRES_IN_def)
  have b: "(1000::nat) < 1000 + 7 * 24 * 60 * 60 * 1000" by simp
  from i issue_then_authenticate [OF i a b] show ?thesis by simp
qed

text \<open>
  Claim C3. \<^verbatim>\<open>optionalAuth\<close> never rejects a request, but it does not attach an identity
  exactly when \<^verbatim>\<open>authenticate\<close> would succeed: it does not look at the session row.
  After Bob has logged out, \<^verbatim>\<open>authenticate\<close> rejects his token with
  \<^verbatim>\<open>SESSION_EXPIRED\<close>, so the specified middleware attaches nobody, while
  \<^verbatim>\<open>optionalAuth\<close> still attaches Bob to a request that carries the token, and
  \<^verbatim>\<open>GET /api/items\<close> answers that request with Bob's items.
\<close>

theorem optionalAuth_after_logout:
  "logout ex_db1 2000 (Bearer bob_token) = (Inr (), revokeSession ex_db1 ''2-1500'') \<and>
   authenticate (revokeSession ex_db1 ''2-1500'') 3000 (Bearer bob_token)
     = Inl (401, ''SESSION_EXPIRED'') \<and>
   OptionalValidate_spec (revokeSession ex_db1 ''2-1500'') 3000 (Bearer bob_token) = Inr None \<and>
   optionalAuth (revokeSession ex_db1 ''2-1500'') 3000 (Bearer bob_token)
     = Inr (Some (public_of bob, bob_payload)) \<and>
   get_items (revokeSession ex_db1 ''2-1500'') 3000 (Bearer bob_token) = Inr (Rows [bobs_item])"
proof -
  have j: "p_jti bob_payload = ''2-1500''" "p_id bob_payload = 2"
    by (simp_all add: bob_payload_def)
  have 1: "logout ex_db1 2000 (Bearer bob_token) = (Inr (), revokeSession ex_db1 ''2-1500'')"
    by (simp add: logout_def authenticate_def verify_bob j) (simp add: ex_defs)
  have 2: "authenticate (revokeSession ex_db1 ''2-1500'') 3000 (Bearer bob_token)
     = Inl (401, ''SESSION_EXPIRED'')"
    by (simp add: authenticate_def verify_bob j revokeSession_def filter_empty_conv)
  have 3: "optionalAuth (revokeSession ex_db1 ''2-1500'') 3000 (Bearer bob_token)
     = Inr (Some (public_of bob, bob_payload))"
    by (simp add: optionalAuth_def verify_bob j revokeSession_def) (simp add: ex_defs)
  have 4: "get_items (revokeSession ex_db1 ''2-1500'') 3000 (Bearer bob_token) = Inr (Rows [bobs_item])"
    by (simp add: get_items_def 3)
       (simp add: order_by_created_at_desc_def public_of_def revokeSession_def ex_defs)
  from 2 have 5: "OptionalValidate_spec (revokeSession ex_db1 ''2-1500'') 3000 (Bearer bob_token)
     = Inr None"
    by (simp add: OptionalValidate_spec_def)
  from 1 2 3 4 5 show ?thesis by simp
qed

text \<open>
  Claim C4, as stated, fails when the refresh reads the same millisecond as the issue of
  the old token: the jti, and with it the whole token, is the same, so the old token is
  the new token and is still accepted.
\<close>

theorem refresh_same_millisecond_keeps_old_token:
  "authenticate ex_db1 1000 (Bearer alice_token) = Inr (public_of alice, alice_payload) \<and>
   fst (refresh ex_db1 1000 1000 1000 (Bearer alice_token)) = Inr alice_token \<and>
   authenticate (snd (refresh ex_db1 1000 1000 1000 (Bearer alice_token))) 1000 (Bearer alice_token)
     = Inr (public_of alice, alice_payload)"
proof -
  have a: "authenticate ex_db1 1000 (Bearer alice_token) = Inr (public_of alice, alice_payload)"
    by (simp add: authenticate_def verify_alice) (simp add: ex_defs)
  have i: "issue (revokeSession ex_db1 ''1-1000'') 1000 1000 1 ''a@b.com''
     = Inr (alice_token, ex_db\<lparr>sessions := [bob_session, alice_session\<lparr>s_id := 3\<rparr>], sessions_seq := 3\<rparr>)"
    by (simp add: issue_def generateToken_def createSession_def revokeSession_def dec_eval
        JWT_EXPIRES_IN_def ex_defs)
  have r: "refresh ex_db1 1000 1000 1000 (Bearer alice_token)
     = (Inr alice_token, ex_db\<lparr>sessions := [bob_session, alice_session\<lparr>s_id := 3\<rparr>], sessions_seq := 3\<rparr>)"
    by (simp only: refresh_def a Let_def sum.case prod.case alice_fields i)
  have b: "authenticate (ex_db\<lparr>sessions := [bob_session, alice_session\<lparr>s_id := 3\<rparr>], sessions_seq := 3\<rparr>)
      1000 (Bearer alice_token) = Inr (public_of alice, alice_payload)"
    by (simp add: authenticate_def verify_alice) (simp add: ex_defs)
  from a r b show ?thesis by simp
qed

text \<open>
  Claim C4, amended. For every refresh that succeeds and whose new jti differs from the
  old one: the old token is rejected from then on, the new token is accepted while it
  and its session have not expired, and the old row is deleted before the new row is
  inserted, so that no state holds both.
\<close>

theorem refresh_replaces_session:
  assumes r: "refresh d ta tg ts (Bearer old) = (Inr new, d')"
    and ne: "p_jti (claims new) \<noteq> p_jti (claims old)"
  shows "(\<forall>t. authenticate d' t (Bearer old) = Inl (401, ''SESSION_EXPIRED'') \<or>
              authenticate d' t (Bearer old) = Inl (401, ''INVALID_TOKEN'')) \<and>
         (\<forall>t. t div 1000 < tg div 1000 + JWT_EXPIRES_IN \<and> t < ts + 7 * 24 * 60 * 60 * 1000 \<longrightarrow>
              (\<exists>user. authenticate d' t (Bearer new) = Inr (user, claims new) \<and>
                      pu_id user = p_id (claims old))) \<and>
         p_jti (claims old) \<notin> set (map s_token_jti (sessions (revokeSession d (p_jti (claims old))))) \<and>
         p_jti (claims new) \<notin> set (map s_token_jti (sessions (revokeSession d (p_jti (claims old))))) \<and>
         createSession (revokeSession d (p_jti (claims old))) ts (p_id (claims old)) (p_jti (claims new)) 7
           = Inr d' \<and>
         p_jti (claims old) \<notin> set (map s_token_jti (sessions d'))"
proof -
  from refresh_InrD [OF r] obtain user token where
    au: "authenticate d ta (Bearer old) = Inr (user, token)" and
    iss: "issue (revokeSession d (p_jti token)) tg ts (pu_id user) (pu_email user) = Inr (new, d')"
    by blast
  from authenticate_InrD [OF au] have "verifyToken ta old = Some token" by auto
  from verifyToken_SomeD [OF this] have old: "claims old = token" by simp
  from authenticate_user_id [OF au] have uid: "pu_id user = p_id (claims old)" by (simp add: old)
  let ?d1 = "revokeSession d (p_jti (claims old))"
  from issue_InrD [OF iss] have new: "new = generateToken tg (pu_id user) (pu_email user)"
    and cs0: "createSession ?d1 ts (pu_id user) (dec (pu_id user) @ ''-'' @ dec tg) 7 = Inr d'"
    by (simp_all add: old)
  have jn: "p_jti (claims new) = dec (pu_id user) @ ''-'' @ dec tg"
    by (simp add: new generateToken_def)
  from cs0 have cs: "createSession ?d1 ts (p_id (claims old)) (p_jti (claims new)) 7 = Inr d'"
    by (simp add: jn uid)
  from createSession_InrD [OF cs] have
    fresh: "p_jti (claims new) \<notin> set (map s_token_jti (sessions ?d1))" and
    d': "set (map s_token_jti (sessions d')) = insert (p_jti (claims new)) (set (map s_token_jti (sessions ?d1)))"
    by auto
  have gone1: "p_jti (claims old) \<notin> set (map s_token_jti (sessions ?d1))"
    by (rule revokeSession_gone)
  with d' ne have gone: "p_jti (claims old) \<notin> set (map s_token_jti (sessions d'))" by auto
  have a: "\<forall>t. authenticate d' t (Bearer old) = Inl (401, ''SESSION_EXPIRED'') \<or>
              authenticate d' t (Bearer old) = Inl (401, ''INVALID_TOKEN'')"
    using no_session_rejected [OF gone] by blast
  have b: "\<forall>t. t div 1000 < tg div 1000 + JWT_EXPIRES_IN \<and> t < ts + 7 * 24 * 60 * 60 * 1000 \<longrightarrow>
              (\<exists>user. authenticate d' t (Bearer new) = Inr (user, claims new) \<and>
                      pu_id user = p_id (claims old))"
    using issue_accepted [OF iss] uid by auto
  from a b gone1 fresh cs gone show ?thesis by blast
qed

theorem refresh_replaces_session_witness:
  "refresh ex_db1 2000 2000 2000 (Bearer alice_token) = (Inr alice_token2, ex_db2) \<and>
   p_jti (claims alice_token2) \<noteq> p_jti (claims alice_token) \<and>
   authenticate ex_db2 2000 (Bearer alice_token) = Inl (401, ''SESSION_EXPIRED'') \<and>
   (\<exists>user. authenticate ex_db2 2000 (Bearer alice_token2) = Inr (user, claims alice_token2) \<and>
           pu_id user = p_id (claims alice_token)) \<and>
   p_jti (claims alice_token) \<notin> set (map s_token_jti (sessions ex_db2))"
proof -
  have a: "authenticate ex_db1 2000 (Bearer alice_token) = Inr (public_of alice, alice_payload)"
    by (simp add: authenticate_def verify_alice) (simp add: ex_defs)
  have i: "issue (revokeSession ex_db1 ''1-1000'') 2000 2000 1 ''a@b.com'' = Inr (alice_token2, ex_db2)"
    by (simp add: issue_def generateToken_def createSession_def revokeSession_def dec_eval
        JWT_EXPIRES_IN_def ex_defs2)
  have r: "refresh ex_db1 2000 2000 2000 (Bearer alice_token) = (Inr alice_token2, ex_db2)"
    by (simp only: refresh_def a Let_def sum.case prod.case alice_fields i)
  have ne: "p_jti (claims alice_token2) \<noteq> p_jti (claims alice_token)"
    by (simp add: ex_defs2)
  have s: "authenticate ex_db2 2000 (Bearer alice_token) = Inl (401, ''SESSION_EXPIRED'')"
    by (simp add: authenticate_def verify_alice) (simp add: ex_defs2)
  have w: "(2000::nat) div 1000 < 2000 div 1000 + JWT_EXPIRES_IN \<and> (2000::nat) < 2000 + 7 * 24 * 60 * 60 * 1000"
    by (simp add: JWT_EXPIRES_IN_def)
  from refresh_replaces_session [OF r ne] w r ne s show ?thesis by blast
qed

section \<open>Sweep\<close>

text \<open>
  Claim C5, as stated, fails at the boundary: a row whose \<^verbatim>\<open>expires_at\<close> equals the
  time of the sweep is not deleted.
\<close>

theorem cleanup_keeps_row_expiring_now:
  "alice_session \<in> set (sessions ex_db1) \<and> s_expires_at alice_session \<le> 604801000 \<and>
   alice_session \<in> set (sessions (cleanupExpiredSessions ex_db1 604801000))"
  by (simp add: cleanupExpiredSessions_def ex_db1_def alice_session_def)

text \<open>
  Claim C5, amended. \<^verbatim>\<open>cleanupExpiredSessions\<close> deletes exactly the session rows whose
  \<^verbatim>\<open>expires_at\<close> is before now: a row survives if and only if now is at most its
  \<^verbatim>\<open>expires_at\<close>. The other tables are untouched.
\<close>

theorem cleanup_removes_exactly_the_past:
  "(s \<in> set (sessions (cleanupExpiredSessions d now))
      = (s \<in> set (sessions d) \<and> now \<le> s_expires_at s)) \<and>
   users (cleanupExpiredSessions d now) = users d \<and>
   items (cleanupExpiredSessions d now) = items d \<and>
   uploads (cleanupExpiredSessions d now) = uploads d"
  by (auto simp: cleanupExpiredSessions_def)

section \<open>Token ids\<close>

text \<open>
  Claim C8, as stated, fails for two issuances for the same user within one millisecond:
  the second jti equals the jti of the live session row of the first, and the insert of
  the second session is refused.
\<close>

theorem issue_same_millisecond_collides:
  "generateToken 1000 1 ''a@b.com'' = alice_token \<and>
   tokenData alice_token = Inr alice_payload \<and>
   alice_session \<in> set (sessions ex_db1) \<and>
   s_token_jti alice_session = p_jti alice_payload \<and>
   1000 < s_expires_at alice_session \<and>
   issue ex_db1 1000 1000 1 ''a@b.com'' = Inl UniqueViolation"
proof -
  have g: "generateToken 1000 1 ''a@b.com'' = alice_token"
    by (simp add: generateToken_def alice_token_def alice_payload_def dec_eval JWT_EXPIRES_IN_def)
  have i: "issue ex_db1 1000 1000 1 ''a@b.com'' = Inl UniqueViolation"
    by (simp add: issue_def generateToken_def createSession_def dec_eval JWT_EXPIRES_IN_def ex_defs)
  from g i show ?thesis
    by (simp add: alice_token_def alice_payload_def alice_session_def ex_db1_def)
qed

text \<open>
  Claim C8, amended. Two generated jtis are equal exactly when the user id and the
  millisecond of issue are both equal. An issue that succeeds stored a jti that no
  session row held, and keeps the stored jtis pairwise distinct; an issue whose jti is
  already stored fails.
\<close>

theorem jti_unique_per_user_and_millisecond:
  "(p_jti (claims (generateToken t1 u1 e1)) = p_jti (claims (generateToken t2 u2 e2))
      = (u1 = u2 \<and> t1 = t2)) \<and>
   (issue d tg ts uid email = Inr (tok, d') \<longrightarrow>
      tok = generateToken tg uid email \<and>
      p_jti (claims tok) \<notin> set (map s_token_jti (sessions d)) \<and>
      p_jti (claims tok) \<in> set (map s_token_jti (sessions d')) \<and>
      (distinct (map s_token_jti (sessions d)) \<longrightarrow> distinct (map s_token_jti (sessions d')))) \<and>
   (p_jti (claims (generateToken tg uid email)) \<in> set (map s_token_jti (sessions d)) \<longrightarrow>
      (\<exists>e. issue d tg ts uid email = Inl e))"
proof -
  have a: "p_jti (claims (generateToken t1 u1 e1)) = p_jti (claims (generateToken t2 u2 e2))
      = (u1 = u2 \<and> t1 = t2)"
    using jti_inj [of u1 t1 u2 t2] by (simp add: generateToken_def)
  have b: "tok = generateToken tg uid email \<and>
      p_jti (claims tok) \<notin> set (map s_token_jti (sessions d)) \<and>
      p_jti (claims tok) \<in> set (map s_token_jti (sessions d')) \<and>
      (distinct (map s_token_jti (sessions d)) \<longrightarrow> distinct (map s_token_jti (sessions d')))"
    if iss: "issue d tg ts uid email = Inr (tok, d')"
  proof -
    from issue_InrD [OF iss] have tok: "tok = generateToken tg uid email"
      and cs: "createSession d ts uid (dec uid @ ''-'' @ dec tg) 7 = Inr d'" by simp_all
    have j: "p_jti (claims tok) = dec uid @ ''-'' @ dec tg" by (simp add: tok generateToken_def)
    from createSession_InrD [OF cs] show ?thesis using tok j by auto
  qed
  have c: "\<exists>e. issue d tg ts uid email = Inl e"
    if "p_jti (claims (generateToken tg uid email)) \<in> set (map s_token_jti (sessions d))"
    using that by (auto simp: issue_def generateToken_def createSession_def Let_def)
  from a b c show ?thesis by blast
qed

theorem jti_unique_per_user_and_millisecond_witness:
  "(p_jti (claims (generateToken 1000 1 ''a@b.com'')) = p_jti (claims (generateToken 1500 2 ''b@b.com''))
      = ((1::nat) = 2 \<and> (1000::nat) = 1500)) \<and>
   issue ex_db 1000 1000 1 ''a@b.com''
     = Inr (alice_token, ex_db\<lparr>sessions := [alice_session], sessions_seq := 1\<rparr>) \<and>
   p_jti (claims alice_token) \<notin> set (map s_token_jti (sessions ex_db)) \<and>
   distinct (map s_token_jti (sessions ex_db)) \<and>
   distinct (map s_token_jti (sessions (ex_db\<lparr>sessions := [alice_session], sessions_seq := 1\<rparr>))) \<and>
   p_jti (claims (generateToken 1000 1 ''a@b.com'')) \<in> set (map s_token_jti (sessions ex_db1)) \<and>
   (\<exists>e. issue ex_db1 1000 1000 1 ''a@b.com'' = Inl e)"
proof -
  have i: "issue ex_db 1000 1000 1 ''a@b.com''
     = Inr (alice_token, ex_db\<lparr>sessions := [alice_session], sessions_seq := 1\<rparr>)"
    by (simp add: issue_def generateToken_def createSession_def dec_eval JWT_EXPIRES_IN_def ex_defs)
  have m: "p_jti (claims (generateToken 1000 1 ''a@b.com'')) \<in> set (map s_token_jti (sessions ex_db1))"
    by (simp add: generateToken_def dec_eval ex_db1_def alice_session_def)
  have e: "distinct (map s_token_jti (sessions ex_db))" by (simp add: ex_db_def)
  note T1 = jti_unique_per_user_and_millisecond
    [of 1000 1 "''a@b.com''" 1500 2 "''b@b.com''" ex_db 1000 1000 1 "''a@b.com''" alice_token
      "ex_db\<lparr>sessions := [alice_session], sessions_seq := 1\<rparr>"]
  note T2 = jti_unique_per_user_and_millisecond
    [of 1000 1 "''a@b.com''" 1500 2 "''b@b.com''" ex_db1 1000 1000 1 "''a@b.com''" alice_token ex_db]
  from T1 i e have "(p_jti (claims (generateToken 1000 1 ''a@b.com'')) = p_jti (claims (generateToken 1500 2 ''b@b.com''))
      = ((1::nat) = 2 \<and> (1000::nat) = 1500)) \<and>
     p_jti (claims alice_token) \<notin> set (map s_token_jti (sessions ex_db)) \<and>
     distinct (map s_token_jti (sessions (ex_db\<lparr>sessions := [alice_session], sessions_seq := 1\<rparr>)))"
    by blast
  moreover from T2 m have "\<exists>e. issue ex_db1 1000 1000 1 ''a@b.com'' = Inl e" by blast
  ultimately show ?thesis using i e m by blast
qed

section \<open>Items\<close>

subsection \<open>Reads with no identity attached\<close>

text \<open>
  What the two reads answer when \<^verbatim>\<open>optionalAuth\<close> attaches no identity to the
  request. \<^verbatim>\<open>GET /api/items\<close> returns at most 10 rows, each the id, name, description
  and creation time of a stored item, whoever owns it (all of them when the table holds
  at most 10, and otherwise no item left out is more recent than a listed one).
  \<^verbatim>\<open>GET /api/items/:id\<close> returns an item only if its \<^verbatim>\<open>user_id\<close> is null (or 0,
  which no \<^verbatim>\<open>SERIAL\<close> id is).
\<close>

lemma anonymous_reads:
  assumes anon: "optionalAuth d now h = Inr None"
  shows "(\<exists>rows. get_items d now h = Inr (Summaries rows) \<and> length rows \<le> 10 \<and>
            set rows \<subseteq> summary_of ` set (items d) \<and>
            (length (items d) \<le> 10 \<longrightarrow> set rows = summary_of ` set (items d)) \<and>
            (\<forall>i\<in>set (items d). summary_of i \<notin> set rows \<longrightarrow>
               (\<forall>r\<in>set rows. i_created_at i \<le> is_created_at r))) \<and>
         (\<forall>item. get_item d now h iid = Inr item \<longrightarrow>
            item \<in> set (items d) \<and> i_id item = iid \<and>
            (i_user_id item = None \<or> i_user_id item = Some 0))"
proof -
  let ?L = "order_by_created_at_desc (items d)"
  let ?rows = "take 10 (map summary_of ?L)"
  have g: "get_items d now h = Inr (Summaries ?rows)" by (simp add: get_items_def anon)
  have s: "set ?rows \<subseteq> summary_of ` set (items d)"
    using set_take_subset [of 10 "map summary_of ?L"] by simp
  have e: "length (items d) \<le> 10 \<longrightarrow> set ?rows = summary_of ` set (items d)" by simp
  have rows: "set ?rows = summary_of ` set (take 10 ?L)" by (simp add: take_map)
  have m: "i_created_at i \<le> is_created_at r"
    if i: "i \<in> set (items d)" and out: "summary_of i \<notin> set ?rows" and r: "r \<in> set ?rows" for i r
  proof -
    from r rows obtain j where j: "j \<in> set (take 10 ?L)" and rj: "r = summary_of j" by auto
    from out rows have "i \<notin> set (take 10 ?L)" by blast
    moreover from i have "i \<in> set (take 10 ?L @ drop 10 ?L)" by simp
    ultimately have "i \<in> set (drop 10 ?L)" by (simp only: set_append Un_iff) blast
    from sorted_wrt_take_drop [OF order_by_created_at_desc_sorted j this]
    show ?thesis by (simp add: rj summary_of_def)
  qed
  have i: "item \<in> set (items d) \<and> i_id item = iid \<and>
            (i_user_id item = None \<or> i_user_id item = Some 0)"
    if r: "get_item d now h iid = Inr item" for item
  proof (cases "filter (\<lambda>i. i_id i = iid) (items d)")
    case Nil
    with r show ?thesis by (simp add: get_item_def anon)
  next
    case (Cons row rest)
    with r have "row = item" "\<not> truthy (i_user_id item)"
      by (auto simp: get_item_def anon split: if_splits)
    moreover from filter_hd_sat [OF Cons] have "row \<in> set (items d)" "i_id row = iid" by simp_all
    ultimately show ?thesis by (auto simp: truthy_def split: option.splits)
  qed
  have "length ?rows \<le> 10" by simp
  with g s e m have "\<exists>rows. get_items d now h = Inr (Summaries rows) \<and> length rows \<le> 10 \<and>
            set rows \<subseteq> summary_of ` set (items d) \<and>
            (length (items d) \<le> 10 \<longrightarrow> set rows = summary_of ` set (items d)) \<and>
            (\<forall>i\<in>set (items d). summary_of i \<notin> set rows \<longrightarrow>
               (\<forall>r\<in>set rows. i_created_at i \<le> is_created_at r))"
    by (intro exI [of _ ?rows] conjI ballI impI) blast+
  with i show ?thesis by blast
qed

text \<open>
  Claim C6. A read without a validated identity must return only items whose
  \<^verbatim>\<open>user_id\<close> is null. The code breaks this in the listing: for a request with no
  \<^verbatim>\<open>Authorization\<close> header, \<^verbatim>\<open>GET /api/items/:id\<close> refuses Bob's item with 403
  \<^verbatim>\<open>FORBIDDEN\<close>, while \<^verbatim>\<open>GET /api/items\<close> answers the same caller with the name and
  description of that item, since its query has no condition on \<^verbatim>\<open>user_id\<close>.
\<close>

theorem public_listing_shows_owned_item:
  "authenticate ex_db 1000 NoHeader = Inl (401, ''NO_TOKEN'') \<and>
   optionalAuth ex_db 1000 NoHeader = Inr None \<and>
   bobs_item \<in> set (items ex_db) \<and>
   i_id bobs_item = 1 \<and>
   i_user_id bobs_item = Some 2 \<and>
   get_item ex_db 1000 NoHeader 1 = Inl (403, ''FORBIDDEN'') \<and>
   get_items ex_db 1000 NoHeader
     = Inr (Summaries
         [\<lparr>is_id = 1, is_name = ''X'', is_description = Some ''private'', is_created_at = 30\<rparr>,
          \<lparr>is_id = 2, is_name = ''Sample Item 1'', is_description = None, is_created_at = 5\<rparr>])"
proof -
  have anon: "optionalAuth ex_db 1000 NoHeader = Inr None" by (simp add: optionalAuth_def)
  have rej: "authenticate ex_db 1000 NoHeader = Inl (401, ''NO_TOKEN'')"
    by (simp add: authenticate_def)
  have one: "get_item ex_db 1000 NoHeader 1 = Inl (403, ''FORBIDDEN'')"
    by (simp add: get_item_def anon) (simp add: truthy_def ex_db_def bobs_item_def legacy_item_def)
  have all: "get_items ex_db 1000 NoHeader
     = Inr (Summaries
         [\<lparr>is_id = 1, is_name = ''X'', is_description = Some ''private'', is_created_at = 30\<rparr>,
          \<lparr>is_id = 2, is_name = ''Sample Item 1'', is_description = None, is_created_at = 5\<rparr>])"
    by (simp add: get_items_def anon)
       (simp add: order_by_created_at_desc_def summary_of_def ex_db_def bobs_item_def
          legacy_item_def)
  have row: "bobs_item \<in> set (items ex_db)" "i_id bobs_item = 1" "i_user_id bobs_item = Some 2"
    by (simp_all add: ex_db_def bobs_item_def)
  from rej anon row one all show ?thesis by simp
qed

subsection \<open>Ownership\<close>

text \<open>
  For an item owned by user \<open>b\<close> and a request that \<^verbatim>\<open>authenticate\<close> accepts for
  another user: \<^verbatim>\<open>PUT\<close> and \<^verbatim>\<open>DELETE\<close> answer 403 \<^verbatim>\<open>FORBIDDEN\<close> and leave the store
  as it was, so the owner still fetches the same row; \<^verbatim>\<open>GET /api/items/:id\<close> with that
  request answers 403 (ids of users are positive); and the listing for that request
  does not contain the item.
\<close>

lemma foreign_item_protected:
  assumes au: "authenticate d now h = Inr (a, tok)"
    and pk: "distinct (map i_id (items d))"
    and row: "row \<in> set (items d)"
    and own: "i_user_id row = Some b"
    and ne: "b \<noteq> pu_id a"
  shows "put_item d now h (i_id row) name description metadata = (Inl (403, ''FORBIDDEN''), d) \<and>
         delete_item d now h (i_id row) = (Inl (403, ''FORBIDDEN''), d) \<and>
         (0 < b \<longrightarrow> get_item d now h (i_id row) = Inl (403, ''FORBIDDEN'')) \<and>
         (\<exists>rows. get_items d now h = Inr (Rows rows) \<and> row \<notin> set rows) \<and>
         (\<forall>t hb ub tb. optionalAuth d t hb = Inr (Some (ub, tb)) \<and> pu_id ub = b \<longrightarrow>
            get_item d t hb (i_id row) = Inr row)"
proof -
  from primary_key_lookup [OF pk row]
  have f: "filter (\<lambda>i. i_id i = i_id row) (items d) = [row]" .
  from authenticate_implies_optionalAuth [OF au]
  have oa: "optionalAuth d now h = Inr (Some (a, tok))" .
  have 1: "put_item d now h (i_id row) name description metadata = (Inl (403, ''FORBIDDEN''), d)"
    using own ne by (simp add: put_item_def au f)
  have 2: "delete_item d now h (i_id row) = (Inl (403, ''FORBIDDEN''), d)"
    using own ne by (simp add: delete_item_def au f)
  have 3: "0 < b \<longrightarrow> get_item d now h (i_id row) = Inl (403, ''FORBIDDEN'')"
    using own ne by (simp add: get_item_def oa f truthy_def)
  have 4: "\<exists>rows. get_items d now h = Inr (Rows rows) \<and> row \<notin> set rows"
    using own ne by (simp add: get_items_def oa)
  have 5: "\<forall>t hb ub tb. optionalAuth d t hb = Inr (Some (ub, tb)) \<and> pu_id ub = b \<longrightarrow>
            get_item d t hb (i_id row) = Inr row"
    using own by (simp add: get_item_def f)
  from 1 2 3 4 5 show ?thesis by blast
qed

text \<open>
  Claim C7. A user must not be able to change, delete or read an item owned by another
  user. The code keeps the first two and breaks the third: with her token Alice gets
  403 \<^verbatim>\<open>FORBIDDEN\<close> for \<^verbatim>\<open>PUT\<close>, \<^verbatim>\<open>DELETE\<close> and \<^verbatim>\<open>GET /api/items/:id\<close> on Bob's
  item and the store is left as it was, but \<^verbatim>\<open>GET /api/items\<close> sent without the
  \<^verbatim>\<open>Authorization\<close> header returns the name and description of Bob's item.
\<close>

theorem owned_item_read_through_listing:
  "authenticate ex_db1 2000 (Bearer alice_token) = Inr (public_of alice, alice_payload) \<and>
   pu_id (public_of alice) = 1 \<and>
   bobs_item \<in> set (items ex_db1) \<and>
   i_id bobs_item = 1 \<and>
   i_user_id bobs_item = Some 2 \<and>
   put_item ex_db1 2000 (Bearer alice_token) 1 (Val ''Y'') Undefined Undefined
     = (Inl (403, ''FORBIDDEN''), ex_db1) \<and>
   delete_item ex_db1 2000 (Bearer alice_token) 1 = (Inl (403, ''FORBIDDEN''), ex_db1) \<and>
   get_item ex_db1 2000 (Bearer alice_token) 1 = Inl (403, ''FORBIDDEN'') \<and>
   get_items ex_db1 2000 (Bearer alice_token) = Inr (Rows []) \<and>
   get_items ex_db1 2000 NoHeader
     = Inr (Summaries
         [\<lparr>is_id = 1, is_name = ''X'', is_description = Some ''private'', is_created_at = 30\<rparr>,
          \<lparr>is_id = 2, is_name = ''Sample Item 1'', is_description = None, is_created_at = 5\<rparr>])"
proof -
  have pk: "distinct (map i_id (items ex_db1))" and row: "bobs_item \<in> set (items ex_db1)"
    and own: "i_user_id bobs_item = Some 2" and ne: "2 \<noteq> pu_id (public_of alice)"
    and iid: "i_id bobs_item = 1"
    by (simp_all add: ex_defs public_of_def)
  from foreign_item_protected [OF auth_alice pk row own ne, of "Val ''Y''" Undefined Undefined]
  have w: "put_item ex_db1 2000 (Bearer alice_token) 1 (Val ''Y'') Undefined Undefined
       = (Inl (403, ''FORBIDDEN''), ex_db1) \<and>
     delete_item ex_db1 2000 (Bearer alice_token) 1 = (Inl (403, ''FORBIDDEN''), ex_db1) \<and>
     get_item ex_db1 2000 (Bearer alice_token) 1 = Inl (403, ''FORBIDDEN'')"
    unfolding iid by (metis zero_less_numeral)
  from authenticate_implies_optionalAuth [OF auth_alice]
  have oa: "optionalAuth ex_db1 2000 (Bearer alice_token) = Inr (Some (public_of alice, alice_payload))" .
  have own_rows: "get_items ex_db1 2000 (Bearer alice_token) = Inr (Rows [])"
    by (simp add: get_items_def oa) (simp add: order_by_created_at_desc_def ex_defs public_of_def)
  have anon: "optionalAuth ex_db1 2000 NoHeader = Inr None" by (simp add: optionalAuth_def)
  have all: "get_items ex_db1 2000 NoHeader
     = Inr (Summaries
         [\<lparr>is_id = 1, is_name = ''X'', is_description = Some ''private'', is_created_at = 30\<rparr>,
          \<lparr>is_id = 2, is_name = ''Sample Item 1'', is_description = None, is_created_at = 5\<rparr>])"
    by (simp add: get_items_def anon)
       (simp add: order_by_created_at_desc_def summary_of_def ex_defs)
  from auth_alice alice_fields(1) row iid own w own_rows all show ?thesis by simp
qed

section \<open>Users\<close>

text \<open>
  Claim C9, as stated, fails when the new password is too short: the request is
  answered 400 \<^verbatim>\<open>WEAK_PASSWORD\<close> before the current password is compared.
\<close>

theorem wrong_current_weak_new_is_400:
  "authenticate ex_db1 2000 (Bearer alice_token) = Inr (public_of alice, alice_payload) \<and>
   \<not> ex_compare ''wrong-pass'' (u_password_hash alice) \<and>
   change_password ex_compare ex_hash ex_db1 2000 (Bearer alice_token)
       (Val ''wrong-pass'') (Val ''short'')
     = (Inl (400, ''WEAK_PASSWORD''), ex_db1)"
  using auth_alice ex_compare_alice by (simp add: change_password_def)

text \<open>
  Claim C9, amended. For an authenticated password change whose two fields are present
  and whose new password has at least 8 characters, a current password that does not
  match the stored hash is answered 401 \<^verbatim>\<open>INVALID_PASSWORD\<close> and the store is left as it
  was. Whatever the request, the store changes only if the current password matches and
  the new one has at least 8 characters; then the hash of the new password replaces the
  stored one.
\<close>

theorem password_change_requires_current:
  assumes au: "authenticate d now h = Inr (user, tok)"
    and pk: "distinct (map u_id (users d))"
    and row: "row \<in> set (users d)"
    and uid: "u_id row = pu_id user"
  shows "(\<forall>c n. present current_password = Some c \<and> present new_password = Some n \<and>
               8 \<le> length n \<and> \<not> compare c (u_password_hash row) \<longrightarrow>
            change_password compare hash d now h current_password new_password
              = (Inl (401, ''INVALID_PASSWORD''), d)) \<and>
         (present current_password = None \<or> present new_password = None \<longrightarrow>
            change_password compare hash d now h current_password new_password
              = (Inl (400, ''MISSING_FIELDS''), d)) \<and>
         (\<forall>c n. present current_password = Some c \<and> present new_password = Some n \<and>
               length n < 8 \<longrightarrow>
            change_password compare hash d now h current_password new_password
              = (Inl (400, ''WEAK_PASSWORD''), d)) \<and>
         (snd (change_password compare hash d now h current_password new_password) \<noteq> d \<longrightarrow>
            (\<exists>c n. present current_password = Some c \<and> present new_password = Some n \<and>
                   compare c (u_password_hash row) \<and> 8 \<le> length n)) \<and>
         (\<forall>c n. present current_password = Some c \<and> present new_password = Some n \<and>
               8 \<le> length n \<and> compare c (u_password_hash row) \<longrightarrow>
            change_password compare hash d now h current_password new_password
              = (Inr (),
                 d\<lparr>users := map (\<lambda>u. if u_id u = pu_id user
                                      then u\<lparr>u_password_hash := hash n, u_updated_at := now\<rparr>
                                      else u) (users d)\<rparr>))"
proof -
  from primary_key_lookup [OF pk row] uid
  have f: "filter (\<lambda>u. u_id u = pu_id user) (users d) = [row]" by simp
  show ?thesis
    by (auto simp: change_password_def au f split: option.splits)
qed

theorem password_change_requires_current_witness:
  "authenticate ex_db1 2000 (Bearer alice_token) = Inr (public_of alice, alice_payload) \<and>
   distinct (map u_id (users ex_db1)) \<and> alice \<in> set (users ex_db1) \<and>
   u_id alice = pu_id (public_of alice) \<and>
   present (Val ''wrong-pass'') = Some ''wrong-pass'' \<and>
   present (Val ''NewPass789'') = Some ''NewPass789'' \<and>
   8 \<le> length ''NewPass789'' \<and>
   \<not> ex_compare ''wrong-pass'' (u_password_hash alice) \<and>
   change_password ex_compare ex_hash ex_db1 2000 (Bearer alice_token)
       (Val ''wrong-pass'') (Val ''NewPass789'')
     = (Inl (401, ''INVALID_PASSWORD''), ex_db1) \<and>
   ex_compare ''Test123!'' (u_password_hash alice) \<and>
   present (Val ''Test123!'') = Some ''Test123!'' \<and>
   change_password ex_compare ex_hash ex_db1 2000 (Bearer alice_token)
       (Val ''Test123!'') (Val ''NewPass789'')
     = (Inr (),
        ex_db1\<lparr>users := map (\<lambda>u. if u_id u = pu_id (public_of alice)
                                 then u\<lparr>u_password_hash := ex_hash ''NewPass789'', u_updated_at := 2000\<rparr>
                                 else u) (users ex_db1)\<rparr>)"
proof -
  have p: "present (Val ''wrong-pass'') = Some ''wrong-pass''"
    "present (Val ''NewPass789'') = Some ''NewPass789''"
    "present (Val ''Test123!'') = Some ''Test123!''"
    "8 \<le> length ''NewPass789''"
    by simp_all
  note T = password_change_requires_current [OF auth_alice alice_row]
  from T [of "Val ''wrong-pass''" "Val ''NewPass789''" ex_compare ex_hash] p ex_compare_alice
  have 1: "change_password ex_compare ex_hash ex_db1 2000 (Bearer alice_token)
       (Val ''wrong-pass'') (Val ''NewPass789'') = (Inl (401, ''INVALID_PASSWORD''), ex_db1)"
    by blast
  from T [of "Val ''Test123!''" "Val ''NewPass789''" ex_compare ex_hash] p ex_compare_alice
  have 2: "change_password ex_compare ex_hash ex_db1 2000 (Bearer alice_token)
       (Val ''Test123!'') (Val ''NewPass789'')
     = (Inr (),
        ex_db1\<lparr>users := map (\<lambda>u. if u_id u = pu_id (public_of alice)
                                 then u\<lparr>u_password_hash := ex_hash ''NewPass789'', u_updated_at := 2000\<rparr>
                                 else u) (users ex_db1)\<rparr>)"
    by blast
  from 1 2 p auth_alice alice_row ex_compare_alice show ?thesis by blast
qed

text \<open>
  Claim C10. For an authenticated account deletion: a missing password is answered 400
  and a password that does not match the stored hash 401, both leaving the store as it
  was; the store changes only if the password matches, and then the user's row is gone
  together with the user's items, sessions and uploads.
\<close>

theorem account_deletion_requires_password:
  assumes au: "authenticate d now h = Inr (user, tok)"
    and pk: "distinct (map u_id (users d))"
    and row: "row \<in> set (users d)"
    and uid: "u_id row = pu_id user"
  shows "(present password = None \<longrightarrow>
            delete_account compare d now h password = (Inl (400, ''MISSING_PASSWORD''), d)) \<and>
         (\<forall>pw. present password = Some pw \<and> \<not> compare pw (u_password_hash row) \<longrightarrow>
            delete_account compare d now h password = (Inl (401, ''INVALID_PASSWORD''), d)) \<and>
         (\<forall>pw. present password = Some pw \<and> compare pw (u_password_hash row) \<longrightarrow>
            delete_account compare d now h password = (Inr (), delete_user d (pu_id user)) \<and>
            row \<notin> set (users (delete_user d (pu_id user))) \<and>
            pu_id user \<notin> set (map u_id (users (delete_user d (pu_id user)))) \<and>
            Some (pu_id user) \<notin> set (map i_user_id (items (delete_user d (pu_id user)))) \<and>
            Some (pu_id user) \<notin> set (map s_user_id (sessions (delete_user d (pu_id user)))) \<and>
            Some (pu_id user) \<notin> set (map up_user_id (uploads (delete_user d (pu_id user))))) \<and>
         (snd (delete_account compare d now h password) \<noteq> d \<longrightarrow>
            (\<exists>pw. present password = Some pw \<and> compare pw (u_password_hash row)))"
proof -
  from primary_key_lookup [OF pk row] uid
  have f: "filter (\<lambda>u. u_id u = pu_id user) (users d) = [row]" by simp
  have del: "row \<notin> set (users (delete_user d (pu_id user))) \<and>
            pu_id user \<notin> set (map u_id (users (delete_user d (pu_id user)))) \<and>
            Some (pu_id user) \<notin> set (map i_user_id (items (delete_user d (pu_id user)))) \<and>
            Some (pu_id user) \<notin> set (map s_user_id (sessions (delete_user d (pu_id user)))) \<and>
            Some (pu_id user) \<notin> set (map up_user_id (uploads (delete_user d (pu_id user))))"
    using uid by (auto simp: delete_user_def Let_def)
  have a: "present password = None \<longrightarrow>
            delete_account compare d now h password = (Inl (400, ''MISSING_PASSWORD''), d)"
    by (simp add: delete_account_def au)
  have b: "\<forall>pw. present password = Some pw \<and> \<not> compare pw (u_password_hash row) \<longrightarrow>
            delete_account compare d now h password = (Inl (401, ''INVALID_PASSWORD''), d)"
    by (simp add: delete_account_def au f)
  have c: "\<forall>pw. present password = Some pw \<and> compare pw (u_password_hash row) \<longrightarrow>
            delete_account compare d now h password = (Inr (), delete_user d (pu_id user))"
    by (simp add: delete_account_def au f)
  have e: "snd (delete_account compare d now h password) \<noteq> d \<longrightarrow>
            (\<exists>pw. present password = Some pw \<and> compare pw (u_password_hash row))"
    by (auto simp: delete_account_def au f split: option.splits)
  from a b c del e show ?thesis by blast
qed

theorem account_deletion_requires_password_witness:
  "authenticate ex_db1 2000 (Bearer alice_token) = Inr (public_of alice, alice_payload) \<and>
   distinct (map u_id (users ex_db1)) \<and> alice \<in> set (users ex_db1) \<and>
   u_id alice = pu_id (public_of alice) \<and>
   present Undefined = None \<and>
   delete_account ex_compare ex_db1 2000 (Bearer alice_token) Undefined
     = (Inl (400, ''MISSING_PASSWORD''), ex_db1) \<and>
   present (Val ''wrong-pass'') = Some ''wrong-pass'' \<and>
   \<not> ex_compare ''wrong-pass'' (u_password_hash alice) \<and>
   delete_account ex_compare ex_db1 2000 (Bearer alice_token) (Val ''wrong-pass'')
     = (Inl (401, ''INVALID_PASSWORD''), ex_db1) \<and>
   present (Val ''Test123!'') = Some ''Test123!'' \<and>
   ex_compare ''Test123!'' (u_password_hash alice) \<and>
   delete_account ex_compare ex_db1 2000 (Bearer alice_token) (Val ''Test123!'')
     = (Inr (), delete_user ex_db1 (pu_id (public_of alice))) \<and>
   alice \<notin> set (users (delete_user ex_db1 (pu_id (public_of alice))))"
proof -
  have p: "present Undefined = None" "present (Val ''wrong-pass'') = Some ''wrong-pass''"
    "present (Val ''Test123!'') = Some ''Test123!''"
    by simp_all
  note T = account_deletion_requires_password [OF auth_alice alice_row]
  from T [of Undefined ex_compare] p
  have 1: "delete_account ex_compare ex_db1 2000 (Bearer alice_token) Undefined
     = (Inl (400, ''MISSING_PASSWORD''), ex_db1)" by blast
  from T [of "Val ''wrong-pass''" ex_compare] p ex_compare_alice
  have 2: "delete_account ex_compare ex_db1 2000 (Bearer alice_token) (Val ''wrong-pass'')
     = (Inl (401, ''INVALID_PASSWORD''), ex_db1)" by blast
  from T [of "Val ''Test123!''" ex_compare] p ex_compare_alice
  have 3: "delete_account ex_compare ex_db1 2000 (Bearer alice_token) (Val ''Test123!'')
     = (Inr (), delete_user ex_db1 (pu_id (public_of alice))) \<and>
   alice \<notin> set (users (delete_user ex_db1 (pu_id (public_of alice))))" by blast
  from 1 2 3 p auth_alice alice_row ex_compare_alice show ?thesis by blast
qed

end
